theory Spec2Isabelle
  imports Main "HOL-Library.Word"
begin

section \<open>JavaScript values used by the link control\<close>

text \<open>
  A JavaScript string is a sequence of UTF-16 code units. \<open>undefined\<close> is the
  \<open>None\<close> of an option type throughout.
\<close>

type_synonym code_unit = "16 word"
type_synonym jsstring = "code_unit list"

text \<open>The code units of an ASCII text, to write JavaScript strings down.\<close>

definition js :: "string \<Rightarrow> jsstring" where
  "js cs = map (\<lambda>c. of_nat (of_char c)) cs"

text \<open>
  \<open>String.prototype.trim\<close> removes the WhiteSpace and LineTerminator code points of
  ECMAScript from both ends.
\<close>

definition isWhiteSpace :: "code_unit \<Rightarrow> bool" where
  "isWhiteSpace c \<longleftrightarrow>
     c = 0x0009 \<or> c = 0x000A \<or> c = 0x000B \<or> c = 0x000C \<or> c = 0x000D \<or>
     c = 0x0020 \<or> c = 0x00A0 \<or> c = 0x1680 \<or> (0x2000 \<le> c \<and> c \<le> 0x200A) \<or>
     c = 0x2028 \<or> c = 0x2029 \<or> c = 0x202F \<or> c = 0x205F \<or> c = 0x3000 \<or>
     c = 0xFEFF"

definition trim :: "jsstring \<Rightarrow> jsstring" where
  "trim s = rev (dropWhile isWhiteSpace (rev (dropWhile isWhiteSpace s)))"

text \<open>Truthiness of a string that may be \<open>undefined\<close>: only a non-empty string is truthy.\<close>

definition truthy :: "jsstring option \<Rightarrow> bool" where
  "truthy v = (case v of None \<Rightarrow> False | Some s \<Rightarrow> s \<noteq> [])"

text \<open>
  \<open>a || b\<close> with \<open>a\<close> a string: \<open>a\<close> when it is non-empty, else \<open>b\<close>
  (a string, or a string that may be \<open>undefined\<close>).
\<close>

definition str_or :: "jsstring \<Rightarrow> jsstring \<Rightarrow> jsstring" where
  "str_or a b = (if a \<noteq> [] then a else b)"

definition str_or_opt :: "jsstring \<Rightarrow> jsstring option \<Rightarrow> jsstring option" where
  "str_or_opt a b = (if a \<noteq> [] then Some a else b)"

section \<open>The link value, the props, the DOM and the component state\<close>

text \<open>
  \<open>WPLinkControlValue\<close>: \<open>url\<close> and \<open>title\<close> (either may be missing), and the
  other own properties of the object (\<open>opensInNewTab\<close>, custom settings, and the
  \<open>id\<close> and \<open>type\<close> of a suggestion).
\<close>

datatype jsval = JBool bool | JStr jsstring | JNum int

record link_value =
  url :: "jsstring option"
  title :: "jsstring option"
  others :: "(string \<times> jsval) list"

text \<open>\<open>value?.url\<close> and \<open>value?.title\<close>.\<close>

definition opt_url :: "link_value option \<Rightarrow> jsstring option" where
  "opt_url v = (case v of None \<Rightarrow> None | Some x \<Rightarrow> url x)"

definition opt_title :: "link_value option \<Rightarrow> jsstring option" where
  "opt_title v = (case v of None \<Rightarrow> None | Some x \<Rightarrow> title x)"

text \<open>\<open>{ ...value }\<close>: spreading \<open>undefined\<close> adds no property.\<close>

definition spread :: "link_value option \<Rightarrow> link_value" where
  "spread v = (case v of None \<Rightarrow> \<lparr>url = None, title = None, others = []\<rparr> | Some x \<Rightarrow> x)"

text \<open>
  The props the modelled code reads, after their defaults: \<open>inputValue\<close> is
  \<open>propInputValue\<close> (default \<open>''\<close>), \<open>hasTextControl\<close> defaults to \<open>false\<close>.
\<close>

record props =
  value_prop :: "link_value option"
  forceIsEditingLink :: "bool option"
  inputValue :: jsstring
  hasTextControl :: bool

text \<open>
  What the component reads of the document: the element \<open>wrapperNode.current\<close>, the
  element \<open>textInputRef.current\<close>, the list \<open>focus.focusable.find\<close> returns for the
  wrapper, and whether the wrapper contains the document's active element.
\<close>

type_synonym element = nat

record document =
  wrapperNode :: "element option"
  textInputRef :: "element option"
  focusable :: "element list"
  activeWithin :: bool

text \<open>
  The state of one component instance: the state cells, the refs, the dependencies each
  effect saw at the last commit (\<open>None\<close> before the first), and the calls made so far
  to \<open>onChange\<close> and to \<open>focus()\<close>.
\<close>

record state =
  isEditingLink :: bool
  internalUrlInputValue :: jsstring
  internalTextInputValue :: jsstring
  isCreatingPage :: bool
  isMounting :: bool
  isEndingEditWithFocus :: bool
  syncDeps :: "bool option option"
  focusDeps :: "(bool \<times> bool) option"
  onChangeCalls :: "link_value list"
  focusCalls :: "element list"

section \<open>The component body\<close>

text \<open>The initial value of the \<open>isEditingLink\<close> state cell.\<close>

definition initialIsEditingLink :: "props \<Rightarrow> bool" where
  "initialIsEditingLink p =
     (case forceIsEditingLink p of
        Some f \<Rightarrow> f
      | None \<Rightarrow> value_prop p = None \<or> \<not> truthy (opt_url (value_prop p)))"

text \<open>
  The state at the first render. The initial values of the two drafts and of
  \<open>isCreatingPage\<close> come from the hooks \<open>useInternalInputValue\<close> and
  \<open>useCreatePage\<close> and are parameters here.
\<close>

definition initialState :: "props \<Rightarrow> jsstring \<Rightarrow> jsstring \<Rightarrow> bool \<Rightarrow> state" where
  "initialState p u t c =
     \<lparr>isEditingLink = initialIsEditingLink p,
      internalUrlInputValue = u,
      internalTextInputValue = t,
      isCreatingPage = c,
      isMounting = True,
      isEndingEditWithFocus = False,
      syncDeps = None,
      focusDeps = None,
      onChangeCalls = [],
      focusCalls = []\<rparr>"

definition stopEditing :: "document \<Rightarrow> state \<Rightarrow> state" where
  "stopEditing d s =
     s\<lparr>isEndingEditWithFocus :=
          (case wrapperNode d of None \<Rightarrow> False | Some w \<Rightarrow> activeWithin d),
       isEditingLink := False\<rparr>"

definition handleSelectSuggestion :: "document \<Rightarrow> link_value option \<Rightarrow> state \<Rightarrow> state" where
  "handleSelectSuggestion d updatedValue s =
     stopEditing d
       (s\<lparr>onChangeCalls := onChangeCalls s @
            [(spread updatedValue)
               \<lparr>title := str_or_opt (internalTextInputValue s) (opt_title updatedValue)\<rparr>]\<rparr>)"

definition currentUrlInputValue :: "props \<Rightarrow> state \<Rightarrow> jsstring" where
  "currentUrlInputValue p s = str_or (inputValue p) (internalUrlInputValue s)"

definition handleSubmit :: "props \<Rightarrow> document \<Rightarrow> state \<Rightarrow> state" where
  "handleSubmit p d s =
     stopEditing d
       (if Some (currentUrlInputValue p s) \<noteq> opt_url (value_prop p) \<or>
           Some (internalTextInputValue s) \<noteq> opt_title (value_prop p)
        then s\<lparr>onChangeCalls := onChangeCalls s @
               [(spread (value_prop p))
                  \<lparr>url := Some (currentUrlInputValue p s),
                   title := Some (internalTextInputValue s)\<rparr>]\<rparr>
        else s)"

definition onEditClick :: "state \<Rightarrow> state" where
  "onEditClick s = s\<lparr>isEditingLink := True\<rparr>"

text \<open>The derived flags, as truth values.\<close>

definition currentInputIsEmpty :: "props \<Rightarrow> state \<Rightarrow> bool" where
  "currentInputIsEmpty p s \<longleftrightarrow> \<not> (length (trim (currentUrlInputValue p s)) \<noteq> 0)"

definition showTextControl :: "props \<Rightarrow> bool" where
  "showTextControl p \<longleftrightarrow>
     (case opt_url (value_prop p) of None \<Rightarrow> False | Some u \<Rightarrow> length (trim u) > 0) \<and>
     hasTextControl p"

definition shouldShowEditControls :: "props \<Rightarrow> state \<Rightarrow> bool" where
  "shouldShowEditControls p s \<longleftrightarrow>
     (isEditingLink s \<or> value_prop p = None) \<and> \<not> isCreatingPage s"

definition shouldShowLinkPreview :: "props \<Rightarrow> state \<Rightarrow> bool" where
  "shouldShowLinkPreview p s \<longleftrightarrow>
     value_prop p \<noteq> None \<and> \<not> isEditingLink s \<and> \<not> isCreatingPage s"

section \<open>The effects and the life of a component instance\<close>

text \<open>
  \<open>useEffect (f, deps)\<close> runs \<open>f\<close> after the first render, and after every later
  render whose dependencies differ from those of the render before. The dependencies
  here are booleans or \<open>undefined\<close>, which React compares by value.
\<close>

definition depsChanged :: "'a option \<Rightarrow> 'a \<Rightarrow> bool" where
  "depsChanged previous deps = (case previous of None \<Rightarrow> True | Some old \<Rightarrow> old \<noteq> deps)"

text \<open>The body of the first effect (dependencies \<open>[forceIsEditingLink]\<close>).\<close>

definition syncEffect :: "props \<Rightarrow> state \<Rightarrow> state" where
  "syncEffect p s =
     (case forceIsEditingLink p of
        None \<Rightarrow> s
      | Some f \<Rightarrow> if f \<noteq> isEditingLink s then s\<lparr>isEditingLink := f\<rparr> else s)"

text \<open>
  The body of the second effect (dependencies \<open>[isEditingLink, isCreatingPage]\<close>).
  Calling \<open>focus\<close> on \<open>undefined\<close> throws a \<open>TypeError\<close>.
\<close>

datatype js_error = TypeError

definition whichFocusTargetIndex :: "document \<Rightarrow> nat" where
  "whichFocusTargetIndex d = (if textInputRef d \<noteq> None then 1 else 0)"

definition nextFocusTarget :: "document \<Rightarrow> element option" where
  "nextFocusTarget d =
     (if whichFocusTargetIndex d < length (focusable d)
      then Some (focusable d ! whichFocusTargetIndex d)
      else wrapperNode d)"

definition focusEffect :: "document \<Rightarrow> state \<Rightarrow> js_error + state" where
  "focusEffect d s =
     (if isMounting s then Inr (s\<lparr>isMounting := False\<rparr>)
      else case nextFocusTarget d of
        None \<Rightarrow> Inl TypeError
      | Some target \<Rightarrow>
          Inr (s\<lparr>focusCalls := focusCalls s @ [target], isEndingEditWithFocus := False\<rparr>))"

text \<open>
  What happens after a render is committed: the two effects run in the order of their
  declaration, each only if its dependencies changed, and the dependencies of this
  render are remembered. The dependencies are those of the render, read before the
  first effect sets any state.
\<close>

definition runEffects :: "props \<Rightarrow> document \<Rightarrow> state \<Rightarrow> js_error + state" where
  "runEffects p d s =
     (let deps1 = forceIsEditingLink p;
          deps2 = (isEditingLink s, isCreatingPage s);
          s1 = (if depsChanged (syncDeps s) deps1 then syncEffect p s else s);
          r = (if depsChanged (focusDeps s) deps2 then focusEffect d s1 else Inr s1)
      in case r of
        Inl e \<Rightarrow> Inl e
      | Inr s2 \<Rightarrow> Inr (s2\<lparr>syncDeps := Some deps1, focusDeps := Some deps2\<rparr>))"

text \<open>
  What can happen between two renders: nothing of the component's own (the parent
  renders it again, or a state update of an effect is pending), one of the handlers
  runs, a draft is set, or the page-creation hook changes \<open>isCreatingPage\<close>.
\<close>

datatype action =
    Rerender
  | Submit
  | SelectSuggestion "link_value option"
  | EditClick
  | SetInternalUrlInputValue jsstring
  | SetInternalTextInputValue jsstring
  | SetIsCreatingPage bool

fun act :: "props \<Rightarrow> document \<Rightarrow> action \<Rightarrow> state \<Rightarrow> state" where
  "act p d Rerender s = s"
| "act p d Submit s = handleSubmit p d s"
| "act p d (SelectSuggestion updatedValue) s = handleSelectSuggestion d updatedValue s"
| "act p d EditClick s = onEditClick s"
| "act p d (SetInternalUrlInputValue x) s = s\<lparr>internalUrlInputValue := x\<rparr>"
| "act p d (SetInternalTextInputValue x) s = s\<lparr>internalTextInputValue := x\<rparr>"
| "act p d (SetIsCreatingPage b) s = s\<lparr>isCreatingPage := b\<rparr>"

text \<open>
  A mounted instance is the props and the document of its last render, and its state.
  A step is an action, taken with the props and the document of the last render, then
  the next render with its own props and document, then the effects of that render.
\<close>

type_synonym mounted = "props \<times> document \<times> state"

definition mount :: "props \<Rightarrow> document \<Rightarrow> jsstring \<Rightarrow> jsstring \<Rightarrow> bool \<Rightarrow> js_error + mounted" where
  "mount p d u t c =
     (case runEffects p d (initialState p u t c) of
        Inl e \<Rightarrow> Inl e
      | Inr s \<Rightarrow> Inr (p, d, s))"

fun step :: "mounted \<Rightarrow> action \<times> props \<times> document \<Rightarrow> js_error + mounted" where
  "step (p, d, s) (a, p', d') =
     (case runEffects p' d' (act p d a s) of
        Inl e \<Rightarrow> Inl e
      | Inr s' \<Rightarrow> Inr (p', d', s'))"

text \<open>The instances a component goes through; an uncaught error ends its life.\<close>

fun life :: "mounted \<Rightarrow> (action \<times> props \<times> document) list \<Rightarrow> mounted list" where
  "life m [] = [m]"
| "life m (e # es) = m # (case step m e of Inl err \<Rightarrow> [] | Inr m' \<Rightarrow> life m' es)"

definition lifetime ::
  "props \<Rightarrow> document \<Rightarrow> jsstring \<Rightarrow> jsstring \<Rightarrow> bool \<Rightarrow> (action \<times> props \<times> document) list \<Rightarrow> mounted list" where
  "lifetime p d u t c es = (case mount p d u t c of Inl err \<Rightarrow> [] | Inr m \<Rightarrow> life m es)"

section \<open>The query-total block renderer\<close>

text \<open>
  A PHP integer is a 64-bit signed integer; arithmetic that leaves the range gives a
  float, which is not modelled further.
\<close>

datatype php_num = PInt int | PFloat

definition fits :: "int \<Rightarrow> bool" where
  "fits n \<longleftrightarrow> - (2 ^ 63) \<le> n \<and> n < 2 ^ 63"

definition php_int :: "int \<Rightarrow> php_num" where
  "php_int n = (if fits n then PInt n else PFloat)"

fun php_add :: "php_num \<Rightarrow> php_num \<Rightarrow> php_num" where
  "php_add (PInt a) (PInt b) = php_int (a + b)"
| "php_add _ _ = PFloat"

fun php_sub :: "php_num \<Rightarrow> php_num \<Rightarrow> php_num" where
  "php_sub (PInt a) (PInt b) = php_int (a - b)"
| "php_sub _ _ = PFloat"

fun php_mul :: "php_num \<Rightarrow> php_num \<Rightarrow> php_num" where
  "php_mul (PInt a) (PInt b) = php_int (a * b)"
| "php_mul _ _ = PFloat"

fun php_min :: "php_num \<Rightarrow> php_num \<Rightarrow> php_num" where
  "php_min (PInt a) (PInt b) = PInt (min a b)"
| "php_min _ _ = PFloat"

text \<open>The decimal text of an integer, as string concatenation and \<open>%d\<close> produce it.\<close>

function nat_digits :: "nat \<Rightarrow> string" where
  "nat_digits n =
     (if n < 10 then [''0123456789'' ! n]
      else nat_digits (n div 10) @ [''0123456789'' ! (n mod 10)])"
  by pat_completeness auto
termination
  by (relation "measure id") auto

declare nat_digits.simps [simp del]

definition strval :: "int \<Rightarrow> string" where
  "strval i = (if i < 0 then CHR ''-'' # nat_digits (nat (- i)) else nat_digits (nat i))"

text \<open>
  \<open>sprintf\<close>, for the directives the renderer uses: \<open>%s\<close>, \<open>%d\<close>, their
  positional forms \<open>%1$s\<close> to \<open>%9$s\<close> and \<open>%%\<close>. A directive without an
  argument is an \<open>ArgumentCountError\<close>, and so is a lone \<open>%\<close> at the end when no
  argument is left for it; with an argument left it is a \<open>ValueError\<close>.
  \<open>Unsupported\<close> marks what is left out: any other directive, \<open>%d\<close> of a string,
  and a number that is a float.
\<close>

datatype php_error = ArgumentCountError | ValueError | Unsupported

datatype sprintf_arg = AStr string | AInt int

fun conversion :: "char \<Rightarrow> sprintf_arg \<Rightarrow> php_error + string" where
  "conversion c (AStr s) = (if c = CHR ''s'' then Inr s else Inl Unsupported)"
| "conversion c (AInt i) = Inr (strval i)"

definition argument :: "char \<Rightarrow> sprintf_arg list \<Rightarrow> nat \<Rightarrow> php_error + string" where
  "argument c args k =
     (if k < length args then conversion c (args ! k) else Inl ArgumentCountError)"

definition is_digit :: "char \<Rightarrow> bool" where
  "is_digit c \<longleftrightarrow> (49::nat) \<le> of_char c \<and> (of_char c :: nat) \<le> 57"

definition then_append ::
  "php_error + string \<Rightarrow> php_error + string \<Rightarrow> php_error + string" where
  "then_append a b =
     (case a of
        Inl e \<Rightarrow> Inl e
      | Inr x \<Rightarrow> (case b of Inl e \<Rightarrow> Inl e | Inr y \<Rightarrow> Inr (x @ y)))"

fun sprintf_from :: "string \<Rightarrow> sprintf_arg list \<Rightarrow> nat \<Rightarrow> php_error + string" where
  "sprintf_from [] args k = Inr []"
| "sprintf_from (c # fmt) args k =
     (if c \<noteq> CHR ''%'' then then_append (Inr [c]) (sprintf_from fmt args k)
      else case fmt of
        [] \<Rightarrow> if k < length args then Inl ValueError else Inl ArgumentCountError
      | c1 # fmt1 \<Rightarrow>
          if c1 = CHR ''%'' then then_append (Inr [c1]) (sprintf_from fmt1 args k)
          else if c1 = CHR ''s'' \<or> c1 = CHR ''d''
          then then_append (argument c1 args k) (sprintf_from fmt1 args (Suc k))
          else (case fmt1 of
              c2 # c3 # fmt3 \<Rightarrow>
                if is_digit c1 \<and> c2 = CHR ''$'' \<and> (c3 = CHR ''s'' \<or> c3 = CHR ''d'')
                then then_append (argument c3 args (of_char c1 - 49))
                       (sprintf_from fmt3 args k)
                else Inl Unsupported
            | _ \<Rightarrow> Inl Unsupported))"

definition sprintf :: "string \<Rightarrow> sprintf_arg list \<Rightarrow> php_error + string" where
  "sprintf fmt args = sprintf_from fmt args 0"

text \<open>
  WordPress's \<open>__\<close> and \<open>_n\<close> with no translation loaded: the text itself, and
  the singular exactly for the number 1.
\<close>

definition translate :: "string \<Rightarrow> string" where
  "translate txt = txt"

definition translate_plural :: "string \<Rightarrow> string \<Rightarrow> int \<Rightarrow> string" where
  "translate_plural single plural n = (if n = 1 then single else plural)"

text \<open>The en dash of the source file, in UTF-8.\<close>

definition en_dash :: string where
  "en_dash = [CHR 0xE2, CHR 0x80, CHR 0x93]"

text \<open>
  What the renderer has after its first lines: the wrapper attributes, the current
  page, the \<open>found_posts\<close> and \<open>posts_per_page\<close> of the query, and the
  \<open>displayType\<close> attribute.
\<close>

record query_total =
  wrapper_attributes :: string
  current_page :: int
  found_posts :: int
  posts_per_page :: int
  displayType :: string

definition strong :: "int \<Rightarrow> sprintf_arg" where
  "strong n = AStr (''<strong>'' @ strval n @ ''</strong>'')"

text \<open>\<open>$range_text\<close>, from \<open>$start\<close>, \<open>$end\<close> and \<open>$max_rows\<close>.\<close>

definition range_text :: "int \<Rightarrow> int \<Rightarrow> int \<Rightarrow> php_error + string" where
  "range_text start end_row max_rows =
     (if start = end_row
      then sprintf (translate ''Displaying %1$s of %2$s'') [strong start, strong max_rows]
      else sprintf (translate (''Displaying %1$s '' @ en_dash @ '' %2$s of %3$s''))
             [strong start, strong end_row, strong max_rows])"

definition render_block_core_query_total :: "query_total \<Rightarrow> php_error + string" where
  "render_block_core_query_total q =
     (let max_rows = php_int (found_posts q);
          per_page = php_int (posts_per_page q);
          start = php_add (php_mul (php_sub (php_int (current_page q)) (PInt 1)) per_page)
                    (PInt 1);
          end_row = php_min (php_sub (php_add start per_page) (PInt 1)) max_rows;
          output =
            (if displayType q = ''range-display''
             then (case (start, end_row, max_rows) of
                 (PInt s, PInt e, PInt m) \<Rightarrow>
                   (case range_text s e m of
                      Inl err \<Rightarrow> Inl err
                    | Inr txt \<Rightarrow> sprintf ''<p>%s</p>'' [AStr txt])
               | _ \<Rightarrow> Inl Unsupported)
             else (case max_rows of
                 PInt m \<Rightarrow>
                   sprintf ''<p><strong>%d</strong> %s</p>''
                     [AInt m, AStr (translate_plural ''result found'' ''results found'' m)]
               | PFloat \<Rightarrow> Inl Unsupported))
      in case output of
        Inl err \<Rightarrow> Inl err
      | Inr out \<Rightarrow> sprintf ''<div %1$s>%2$s</div>'' [AStr (wrapper_attributes q), AStr out])"

section \<open>Properties of the link control\<close>

subsection \<open>Trimming\<close>

lemma list_all_dropWhile: "list_all P (dropWhile P xs) = list_all P xs"
  by (induction xs) auto

lemma trim_empty_iff: "trim s = [] \<longleftrightarrow> list_all isWhiteSpace s"
  by (simp add: trim_def dropWhile_eq_Nil_conv list_all_dropWhile flip: list_all_iff)

subsection \<open>The derived flags\<close>

text \<open>
  Claim C4. \<open>showTextControl\<close> is false whenever the committed value's url is
  absent (no value, or a value without url), empty or made of white space only,
  whatever \<open>hasTextControl\<close> is; it is true exactly when the trimmed length of the
  committed url is greater than 0 and \<open>hasTextControl\<close> is enabled.
\<close>

theorem showTextControl_committed_url:
  "(opt_url (value_prop p) = None \<longrightarrow> \<not> showTextControl p) \<and>
   (\<forall>u. opt_url (value_prop p) = Some u \<longrightarrow>
      (u = [] \<or> list_all isWhiteSpace u \<longrightarrow> \<not> showTextControl p) \<and>
      (showTextControl p \<longleftrightarrow> 0 < length (trim u) \<and> hasTextControl p))"
  by (auto simp: showTextControl_def trim_empty_iff)

theorem showTextControl_committed_url_witness:
  "\<not> showTextControl \<lparr>value_prop = None, forceIsEditingLink = None, inputValue = [],
       hasTextControl = True\<rparr> \<and>
   \<not> showTextControl \<lparr>value_prop = Some \<lparr>url = Some (js ''   ''), title = None, others = []\<rparr>,
       forceIsEditingLink = None, inputValue = [], hasTextControl = True\<rparr> \<and>
   showTextControl \<lparr>value_prop = Some \<lparr>url = Some (js '' https://wordpress.org ''), title = None, others = []\<rparr>,
       forceIsEditingLink = None, inputValue = [], hasTextControl = True\<rparr> \<and>
   \<not> showTextControl \<lparr>value_prop = Some \<lparr>url = Some (js '' https://wordpress.org ''), title = None, others = []\<rparr>,
       forceIsEditingLink = None, inputValue = [], hasTextControl = False\<rparr>"
  using showTextControl_committed_url
      [of "\<lparr>value_prop = None, forceIsEditingLink = None, inputValue = [], hasTextControl = True\<rparr>"]
    showTextControl_committed_url
      [of "\<lparr>value_prop = Some \<lparr>url = Some (js ''   ''), title = None, others = []\<rparr>,
       forceIsEditingLink = None, inputValue = [], hasTextControl = True\<rparr>"]
    showTextControl_committed_url
      [of "\<lparr>value_prop = Some \<lparr>url = Some (js '' https://wordpress.org ''), title = None, others = []\<rparr>,
       forceIsEditingLink = None, inputValue = [], hasTextControl = True\<rparr>"]
    showTextControl_committed_url
      [of "\<lparr>value_prop = Some \<lparr>url = Some (js '' https://wordpress.org ''), title = None, others = []\<rparr>,
       forceIsEditingLink = None, inputValue = [], hasTextControl = False\<rparr>"]
  by (simp add: opt_url_def js_def isWhiteSpace_def trim_def)

text \<open>
  Claim C9. \<open>shouldShowEditControls\<close> and \<open>shouldShowLinkPreview\<close> are never
  both true, in any state (so in every reachable one): the preview needs a committed
  value and not editing, the edit controls need editing or no committed value.
\<close>

theorem edit_controls_preview_exclusive:
  "\<not> (shouldShowEditControls p s \<and> shouldShowLinkPreview p s) \<and>
   (shouldShowLinkPreview p s \<longrightarrow> value_prop p \<noteq> None \<and> \<not> isEditingLink s) \<and>
   (shouldShowEditControls p s \<longrightarrow> isEditingLink s \<or> value_prop p = None)"
  by (auto simp: shouldShowEditControls_def shouldShowLinkPreview_def)

theorem edit_controls_preview_exclusive_witness:
  "shouldShowLinkPreview
      \<lparr>value_prop = Some \<lparr>url = Some (js ''https://wordpress.org''), title = None, others = []\<rparr>,
       forceIsEditingLink = None, inputValue = [], hasTextControl = False\<rparr>
      \<lparr>isEditingLink = False, internalUrlInputValue = js ''https://wordpress.org'',
       internalTextInputValue = [], isCreatingPage = False, isMounting = False,
       isEndingEditWithFocus = False, syncDeps = Some None, focusDeps = Some (False, False),
       onChangeCalls = [], focusCalls = []\<rparr> \<and>
   \<not> shouldShowEditControls
      \<lparr>value_prop = Some \<lparr>url = Some (js ''https://wordpress.org''), title = None, others = []\<rparr>,
       forceIsEditingLink = None, inputValue = [], hasTextControl = False\<rparr>
      \<lparr>isEditingLink = False, internalUrlInputValue = js ''https://wordpress.org'',
       internalTextInputValue = [], isCreatingPage = False, isMounting = False,
       isEndingEditWithFocus = False, syncDeps = Some None, focusDeps = Some (False, False),
       onChangeCalls = [], focusCalls = []\<rparr> \<and>
   shouldShowEditControls
      \<lparr>value_prop = Some \<lparr>url = Some (js ''https://wordpress.org''), title = None, others = []\<rparr>,
       forceIsEditingLink = None, inputValue = [], hasTextControl = False\<rparr>
      \<lparr>isEditingLink = True, internalUrlInputValue = js ''https://wordpress.org'',
       internalTextInputValue = [], isCreatingPage = False, isMounting = False,
       isEndingEditWithFocus = False, syncDeps = Some None, focusDeps = Some (True, False),
       onChangeCalls = [], focusCalls = []\<rparr> \<and>
   \<not> shouldShowLinkPreview
      \<lparr>value_prop = Some \<lparr>url = Some (js ''https://wordpress.org''), title = None, others = []\<rparr>,
       forceIsEditingLink = None, inputValue = [], hasTextControl = False\<rparr>
      \<lparr>isEditingLink = True, internalUrlInputValue = js ''https://wordpress.org'',
       internalTextInputValue = [], isCreatingPage = False, isMounting = False,
       isEndingEditWithFocus = False, syncDeps = Some None, focusDeps = Some (True, False),
       onChangeCalls = [], focusCalls = []\<rparr>"
  using
    edit_controls_preview_exclusive
      [of "\<lparr>value_prop = Some \<lparr>url = Some (js ''https://wordpress.org''), title = None, others = []\<rparr>,
       forceIsEditingLink = None, inputValue = [], hasTextControl = False\<rparr>"
      "\<lparr>isEditingLink = False, internalUrlInputValue = js ''https://wordpress.org'',
       internalTextInputValue = [], isCreatingPage = False, isMounting = False,
       isEndingEditWithFocus = False, syncDeps = Some None, focusDeps = Some (False, False),
       onChangeCalls = [], focusCalls = []\<rparr>"]
    edit_controls_preview_exclusive
      [of "\<lparr>value_prop = Some \<lparr>url = Some (js ''https://wordpress.org''), title = None, others = []\<rparr>,
       forceIsEditingLink = None, inputValue = [], hasTextControl = False\<rparr>"
      "\<lparr>isEditingLink = True, internalUrlInputValue = js ''https://wordpress.org'',
       internalTextInputValue = [], isCreatingPage = False, isMounting = False,
       isEndingEditWithFocus = False, syncDeps = Some None, focusDeps = Some (True, False),
       onChangeCalls = [], focusCalls = []\<rparr>"]
  by (simp add: shouldShowEditControls_def shouldShowLinkPreview_def)

subsection \<open>The first render\<close>

lemma runEffects_initial:
  "runEffects p d (initialState p u t c) =
     Inr ((initialState p u t c)
            \<lparr>isMounting := False,
             syncDeps := Some (forceIsEditingLink p),
             focusDeps := Some (initialIsEditingLink p, c)\<rparr>)"
  by (cases "forceIsEditingLink p")
     (simp_all add: runEffects_def depsChanged_def syncEffect_def focusEffect_def
        initialState_def initialIsEditingLink_def Let_def)

text \<open>
  Claim C2. When \<open>forceIsEditingLink\<close> is not given, the component starts in editing
  mode exactly if there is no value or the value's url is missing or empty, and in
  viewing mode otherwise; when \<open>forceIsEditingLink\<close> is given, the initial mode is
  that flag. Mounting (the first run of the effects) does not change the mode.
\<close>

theorem initial_mode:
  "(forceIsEditingLink p = None \<longrightarrow>
      (isEditingLink (initialState p u t c) \<longleftrightarrow>
         value_prop p = None \<or>
         (\<exists>v. value_prop p = Some v \<and> (url v = None \<or> url v = Some [])))) \<and>
   (\<forall>f. forceIsEditingLink p = Some f \<longrightarrow> isEditingLink (initialState p u t c) = f) \<and>
   (\<exists>s. mount p d u t c = Inr (p, d, s) \<and>
        isEditingLink s = isEditingLink (initialState p u t c))"
proof (intro conjI impI allI)
  assume "forceIsEditingLink p = None"
  then show "isEditingLink (initialState p u t c) \<longleftrightarrow>
         value_prop p = None \<or>
         (\<exists>v. value_prop p = Some v \<and> (url v = None \<or> url v = Some []))"
    by (cases "value_prop p")
       (auto simp: initialState_def initialIsEditingLink_def truthy_def opt_url_def
          split: option.splits)
next
  fix f assume "forceIsEditingLink p = Some f"
  then show "isEditingLink (initialState p u t c) = f"
    by (simp add: initialState_def initialIsEditingLink_def)
next
  show "\<exists>s. mount p d u t c = Inr (p, d, s) \<and>
        isEditingLink s = isEditingLink (initialState p u t c)"
    by (simp add: mount_def runEffects_initial)
qed

theorem initial_mode_witness:
  "isEditingLink (initialState
      \<lparr>value_prop = None, forceIsEditingLink = None, inputValue = [], hasTextControl = False\<rparr>
      [] [] False) \<and>
   isEditingLink (initialState
      \<lparr>value_prop = Some \<lparr>url = Some [], title = Some (js ''WordPress''), others = []\<rparr>,
       forceIsEditingLink = None, inputValue = [], hasTextControl = False\<rparr>
      [] (js ''WordPress'') False) \<and>
   \<not> isEditingLink (initialState
      \<lparr>value_prop = Some \<lparr>url = Some (js ''https://wordpress.org''), title = None, others = []\<rparr>,
       forceIsEditingLink = None, inputValue = [], hasTextControl = False\<rparr>
      (js ''https://wordpress.org'') [] False) \<and>
   isEditingLink (initialState
      \<lparr>value_prop = Some \<lparr>url = Some (js ''https://wordpress.org''), title = None, others = []\<rparr>,
       forceIsEditingLink = Some True, inputValue = [], hasTextControl = False\<rparr>
      (js ''https://wordpress.org'') [] False)"
  using
    initial_mode [of "\<lparr>value_prop = None, forceIsEditingLink = None, inputValue = [],
       hasTextControl = False\<rparr>" "[]" "[]" False]
    initial_mode [of "\<lparr>value_prop = Some \<lparr>url = Some [], title = Some (js ''WordPress''), others = []\<rparr>,
       forceIsEditingLink = None, inputValue = [], hasTextControl = False\<rparr>" "[]" "js ''WordPress''" False]
    initial_mode [of "\<lparr>value_prop = Some \<lparr>url = Some (js ''https://wordpress.org''), title = None, others = []\<rparr>,
       forceIsEditingLink = None, inputValue = [], hasTextControl = False\<rparr>"
       "js ''https://wordpress.org''" "[]" False]
    initial_mode [of "\<lparr>value_prop = Some \<lparr>url = Some (js ''https://wordpress.org''), title = None, others = []\<rparr>,
       forceIsEditingLink = Some True, inputValue = [], hasTextControl = False\<rparr>"
       "js ''https://wordpress.org''" "[]" False]
  by (simp add: js_def initialState_def initialIsEditingLink_def truthy_def opt_url_def)

subsection \<open>The handlers\<close>

text \<open>
  Claim C1, as amended. On submit, the draft URL is the current URL input: the
  \<open>inputValue\<close> prop when it is a non-empty string, the internal draft URL
  otherwise. If that draft URL is the committed value's url and the draft title is the
  committed value's title (only these two are compared), \<open>onChange\<close> is not called;
  otherwise it is called exactly once, with the committed value extended by that draft
  URL and the draft title. In both cases \<open>isEditingLink\<close> becomes false.

  With the internal draft URL as the draft URL the claim fails: in an instance reached
  by clicking edit, whose \<open>inputValue\<close> prop is non-empty and whose two internal
  drafts are the committed url and title, submit calls \<open>onChange\<close> with the prop
  as url.
\<close>

theorem handleSubmit_reconciliation:
  "(let draftUrl = (if inputValue p \<noteq> [] then inputValue p else internalUrlInputValue s);
        draftTitle = internalTextInputValue s
    in (Some draftUrl = opt_url (value_prop p) \<and> Some draftTitle = opt_title (value_prop p) \<longrightarrow>
          onChangeCalls (handleSubmit p d s) = onChangeCalls s) \<and>
       (\<not> (Some draftUrl = opt_url (value_prop p) \<and>
           Some draftTitle = opt_title (value_prop p)) \<longrightarrow>
          onChangeCalls (handleSubmit p d s) =
            onChangeCalls s @
              [(spread (value_prop p))\<lparr>url := Some draftUrl, title := Some draftTitle\<rparr>])) \<and>
   \<not> isEditingLink (handleSubmit p d s)"
  by (simp add: handleSubmit_def stopEditing_def currentUrlInputValue_def str_or_def Let_def)

theorem handleSubmit_reconciliation_witness:
  "onChangeCalls (handleSubmit
      \<lparr>value_prop = Some \<lparr>url = Some (js ''https://a.org''), title = Some (js ''A''),
         others = [(''opensInNewTab'', JBool True)]\<rparr>,
       forceIsEditingLink = None, inputValue = [], hasTextControl = True\<rparr>
      \<lparr>wrapperNode = Some 0, textInputRef = Some 1, focusable = [1, 2], activeWithin = True\<rparr>
      \<lparr>isEditingLink = True, internalUrlInputValue = js ''https://a.org'',
       internalTextInputValue = js ''A'', isCreatingPage = False, isMounting = False,
       isEndingEditWithFocus = False, syncDeps = Some None, focusDeps = Some (True, False),
       onChangeCalls = [], focusCalls = [2]\<rparr>) = [] \<and>
   \<not> isEditingLink (handleSubmit
      \<lparr>value_prop = Some \<lparr>url = Some (js ''https://a.org''), title = Some (js ''A''),
         others = [(''opensInNewTab'', JBool True)]\<rparr>,
       forceIsEditingLink = None, inputValue = [], hasTextControl = True\<rparr>
      \<lparr>wrapperNode = Some 0, textInputRef = Some 1, focusable = [1, 2], activeWithin = True\<rparr>
      \<lparr>isEditingLink = True, internalUrlInputValue = js ''https://a.org'',
       internalTextInputValue = js ''A'', isCreatingPage = False, isMounting = False,
       isEndingEditWithFocus = False, syncDeps = Some None, focusDeps = Some (True, False),
       onChangeCalls = [], focusCalls = [2]\<rparr>) \<and>
   onChangeCalls (handleSubmit
      \<lparr>value_prop = Some \<lparr>url = Some (js ''https://a.org''), title = Some (js ''A''),
         others = [(''opensInNewTab'', JBool True)]\<rparr>,
       forceIsEditingLink = None, inputValue = [], hasTextControl = True\<rparr>
      \<lparr>wrapperNode = Some 0, textInputRef = Some 1, focusable = [1, 2], activeWithin = True\<rparr>
      \<lparr>isEditingLink = True, internalUrlInputValue = js ''https://b.org'',
       internalTextInputValue = js ''A'', isCreatingPage = False, isMounting = False,
       isEndingEditWithFocus = False, syncDeps = Some None, focusDeps = Some (True, False),
       onChangeCalls = [], focusCalls = [2]\<rparr>) =
     [\<lparr>url = Some (js ''https://b.org''), title = Some (js ''A''),
       others = [(''opensInNewTab'', JBool True)]\<rparr>] \<and>
   onChangeCalls (handleSubmit
      \<lparr>value_prop = Some \<lparr>url = Some (js ''https://a.org''), title = Some (js ''A''),
         others = [(''opensInNewTab'', JBool True)]\<rparr>,
       forceIsEditingLink = None, inputValue = js ''https://a.org'', hasTextControl = True\<rparr>
      \<lparr>wrapperNode = Some 0, textInputRef = Some 1, focusable = [1, 2], activeWithin = True\<rparr>
      \<lparr>isEditingLink = True, internalUrlInputValue = js ''https://b.org'',
       internalTextInputValue = js ''A'', isCreatingPage = False, isMounting = False,
       isEndingEditWithFocus = False, syncDeps = Some None, focusDeps = Some (True, False),
       onChangeCalls = [], focusCalls = [2]\<rparr>) = [] \<and>
   onChangeCalls (handleSubmit
      \<lparr>value_prop = Some \<lparr>url = Some (js ''https://a.org''), title = Some (js ''A''),
         others = [(''opensInNewTab'', JBool True)]\<rparr>,
       forceIsEditingLink = None, inputValue = js ''https://prop.org'', hasTextControl = True\<rparr>
      \<lparr>wrapperNode = Some 0, textInputRef = Some 1, focusable = [1, 2], activeWithin = True\<rparr>
      \<lparr>isEditingLink = True, internalUrlInputValue = js ''https://a.org'',
       internalTextInputValue = js ''A'', isCreatingPage = False, isMounting = False,
       isEndingEditWithFocus = False, syncDeps = Some None, focusDeps = Some (True, False),
       onChangeCalls = [], focusCalls = [2]\<rparr>) =
     [\<lparr>url = Some (js ''https://prop.org''), title = Some (js ''A''),
       others = [(''opensInNewTab'', JBool True)]\<rparr>]"
  using
    handleSubmit_reconciliation
      [of "\<lparr>value_prop = Some \<lparr>url = Some (js ''https://a.org''), title = Some (js ''A''),
         others = [(''opensInNewTab'', JBool True)]\<rparr>,
       forceIsEditingLink = None, inputValue = [], hasTextControl = True\<rparr>"
      "\<lparr>isEditingLink = True, internalUrlInputValue = js ''https://a.org'',
       internalTextInputValue = js ''A'', isCreatingPage = False, isMounting = False,
       isEndingEditWithFocus = False, syncDeps = Some None, focusDeps = Some (True, False),
       onChangeCalls = [], focusCalls = [2]\<rparr>"
      "\<lparr>wrapperNode = Some 0, textInputRef = Some 1, focusable = [1, 2], activeWithin = True\<rparr>"]
    handleSubmit_reconciliation
      [of "\<lparr>value_prop = Some \<lparr>url = Some (js ''https://a.org''), title = Some (js ''A''),
         others = [(''opensInNewTab'', JBool True)]\<rparr>,
       forceIsEditingLink = None, inputValue = [], hasTextControl = True\<rparr>"
      "\<lparr>isEditingLink = True, internalUrlInputValue = js ''https://b.org'',
       internalTextInputValue = js ''A'', isCreatingPage = False, isMounting = False,
       isEndingEditWithFocus = False, syncDeps = Some None, focusDeps = Some (True, False),
       onChangeCalls = [], focusCalls = [2]\<rparr>"
      "\<lparr>wrapperNode = Some 0, textInputRef = Some 1, focusable = [1, 2], activeWithin = True\<rparr>"]
    handleSubmit_reconciliation
      [of "\<lparr>value_prop = Some \<lparr>url = Some (js ''https://a.org''), title = Some (js ''A''),
         others = [(''opensInNewTab'', JBool True)]\<rparr>,
       forceIsEditingLink = None, inputValue = js ''https://a.org'', hasTextControl = True\<rparr>"
      "\<lparr>isEditingLink = True, internalUrlInputValue = js ''https://b.org'',
       internalTextInputValue = js ''A'', isCreatingPage = False, isMounting = False,
       isEndingEditWithFocus = False, syncDeps = Some None, focusDeps = Some (True, False),
       onChangeCalls = [], focusCalls = [2]\<rparr>"
      "\<lparr>wrapperNode = Some 0, textInputRef = Some 1, focusable = [1, 2], activeWithin = True\<rparr>"]
    handleSubmit_reconciliation
      [of "\<lparr>value_prop = Some \<lparr>url = Some (js ''https://a.org''), title = Some (js ''A''),
         others = [(''opensInNewTab'', JBool True)]\<rparr>,
       forceIsEditingLink = None, inputValue = js ''https://prop.org'', hasTextControl = True\<rparr>"
      "\<lparr>isEditingLink = True, internalUrlInputValue = js ''https://a.org'',
       internalTextInputValue = js ''A'', isCreatingPage = False, isMounting = False,
       isEndingEditWithFocus = False, syncDeps = Some None, focusDeps = Some (True, False),
       onChangeCalls = [], focusCalls = [2]\<rparr>"
      "\<lparr>wrapperNode = Some 0, textInputRef = Some 1, focusable = [1, 2], activeWithin = True\<rparr>"]
  by (simp add: opt_url_def opt_title_def spread_def js_def Let_def)

theorem handleSubmit_internal_draft_counterexample:
  "(\<lparr>value_prop = Some \<lparr>url = Some (js ''https://a.org''), title = Some (js ''A''), others = []\<rparr>,
      forceIsEditingLink = None, inputValue = js ''https://prop.org'', hasTextControl = True\<rparr>,
    \<lparr>wrapperNode = Some 0, textInputRef = Some 1, focusable = [1, 2], activeWithin = True\<rparr>,
    \<lparr>isEditingLink = True, internalUrlInputValue = js ''https://a.org'',
      internalTextInputValue = js ''A'', isCreatingPage = False, isMounting = False,
      isEndingEditWithFocus = False, syncDeps = Some None, focusDeps = Some (True, False),
      onChangeCalls = [], focusCalls = [2]\<rparr>)
   \<in> set (lifetime
      \<lparr>value_prop = Some \<lparr>url = Some (js ''https://a.org''), title = Some (js ''A''), others = []\<rparr>,
        forceIsEditingLink = None, inputValue = js ''https://prop.org'', hasTextControl = True\<rparr>
      \<lparr>wrapperNode = Some 0, textInputRef = None, focusable = [3], activeWithin = False\<rparr>
      (js ''https://a.org'') (js ''A'') False
      [(EditClick,
        \<lparr>value_prop = Some \<lparr>url = Some (js ''https://a.org''), title = Some (js ''A''), others = []\<rparr>,
          forceIsEditingLink = None, inputValue = js ''https://prop.org'', hasTextControl = True\<rparr>,
        \<lparr>wrapperNode = Some 0, textInputRef = Some 1, focusable = [1, 2], activeWithin = True\<rparr>)]) \<and>
   Some (js ''https://a.org'') =
     opt_url (Some \<lparr>url = Some (js ''https://a.org''), title = Some (js ''A''), others = []\<rparr>) \<and>
   Some (js ''A'') =
     opt_title (Some \<lparr>url = Some (js ''https://a.org''), title = Some (js ''A''), others = []\<rparr>) \<and>
   onChangeCalls (handleSubmit
      \<lparr>value_prop = Some \<lparr>url = Some (js ''https://a.org''), title = Some (js ''A''), others = []\<rparr>,
        forceIsEditingLink = None, inputValue = js ''https://prop.org'', hasTextControl = True\<rparr>
      \<lparr>wrapperNode = Some 0, textInputRef = Some 1, focusable = [1, 2], activeWithin = True\<rparr>
      \<lparr>isEditingLink = True, internalUrlInputValue = js ''https://a.org'',
        internalTextInputValue = js ''A'', isCreatingPage = False, isMounting = False,
        isEndingEditWithFocus = False, syncDeps = Some None, focusDeps = Some (True, False),
        onChangeCalls = [], focusCalls = [2]\<rparr>) =
     [\<lparr>url = Some (js ''https://prop.org''), title = Some (js ''A''), others = []\<rparr>]"
  unfolding lifetime_def mount_def runEffects_initial
  by (simp add: initialState_def initialIsEditingLink_def truthy_def opt_url_def opt_title_def
      js_def onEditClick_def runEffects_def depsChanged_def syncEffect_def focusEffect_def
      nextFocusTarget_def whichFocusTargetIndex_def Let_def handleSubmit_def stopEditing_def
      currentUrlInputValue_def str_or_def spread_def)

text \<open>
  Claim C5. Selecting a suggestion calls \<open>onChange\<close> exactly once, with the fields
  of the suggestion and, as title, the draft title when it is non-empty and the
  suggestion's own title otherwise; \<open>isEditingLink\<close> becomes false. This holds in
  every mode, so in editing mode.
\<close>

theorem handleSelectSuggestion_commit:
  "onChangeCalls (handleSelectSuggestion d (Some suggestion) s) =
     onChangeCalls s @
       [suggestion\<lparr>title :=
          (if internalTextInputValue s \<noteq> [] then Some (internalTextInputValue s)
           else title suggestion)\<rparr>] \<and>
   \<not> isEditingLink (handleSelectSuggestion d (Some suggestion) s)"
  by (simp add: handleSelectSuggestion_def stopEditing_def spread_def str_or_opt_def
      opt_title_def)

theorem handleSelectSuggestion_commit_witness:
  "onChangeCalls (handleSelectSuggestion
      \<lparr>wrapperNode = Some 0, textInputRef = None, focusable = [1], activeWithin = True\<rparr>
      (Some \<lparr>url = Some (js ''https://a.org/p''), title = Some (js ''Page''),
         others = [(''id'', JNum 7), (''type'', JStr (js ''page''))]\<rparr>)
      \<lparr>isEditingLink = True, internalUrlInputValue = js ''pa'',
       internalTextInputValue = js ''Mine'', isCreatingPage = False, isMounting = False,
       isEndingEditWithFocus = False, syncDeps = Some None, focusDeps = Some (True, False),
       onChangeCalls = [], focusCalls = []\<rparr>) =
     [\<lparr>url = Some (js ''https://a.org/p''), title = Some (js ''Mine''),
       others = [(''id'', JNum 7), (''type'', JStr (js ''page''))]\<rparr>] \<and>
   onChangeCalls (handleSelectSuggestion
      \<lparr>wrapperNode = Some 0, textInputRef = None, focusable = [1], activeWithin = True\<rparr>
      (Some \<lparr>url = Some (js ''https://a.org/p''), title = Some (js ''Page''),
         others = [(''id'', JNum 7), (''type'', JStr (js ''page''))]\<rparr>)
      \<lparr>isEditingLink = True, internalUrlInputValue = js ''pa'',
       internalTextInputValue = [], isCreatingPage = False, isMounting = False,
       isEndingEditWithFocus = False, syncDeps = Some None, focusDeps = Some (True, False),
       onChangeCalls = [], focusCalls = []\<rparr>) =
     [\<lparr>url = Some (js ''https://a.org/p''), title = Some (js ''Page''),
       others = [(''id'', JNum 7), (''type'', JStr (js ''page''))]\<rparr>] \<and>
   \<not> isEditingLink (handleSelectSuggestion
      \<lparr>wrapperNode = Some 0, textInputRef = None, focusable = [1], activeWithin = True\<rparr>
      (Some \<lparr>url = Some (js ''https://a.org/p''), title = Some (js ''Page''),
         others = [(''id'', JNum 7), (''type'', JStr (js ''page''))]\<rparr>)
      \<lparr>isEditingLink = True, internalUrlInputValue = js ''pa'',
       internalTextInputValue = js ''Mine'', isCreatingPage = False, isMounting = False,
       isEndingEditWithFocus = False, syncDeps = Some None, focusDeps = Some (True, False),
       onChangeCalls = [], focusCalls = []\<rparr>)"
  using
    handleSelectSuggestion_commit
      [of "\<lparr>wrapperNode = Some 0, textInputRef = None, focusable = [1], activeWithin = True\<rparr>"
      "\<lparr>url = Some (js ''https://a.org/p''), title = Some (js ''Page''),
         others = [(''id'', JNum 7), (''type'', JStr (js ''page''))]\<rparr>"
      "\<lparr>isEditingLink = True, internalUrlInputValue = js ''pa'',
       internalTextInputValue = js ''Mine'', isCreatingPage = False, isMounting = False,
       isEndingEditWithFocus = False, syncDeps = Some None, focusDeps = Some (True, False),
       onChangeCalls = [], focusCalls = []\<rparr>"]
    handleSelectSuggestion_commit
      [of "\<lparr>wrapperNode = Some 0, textInputRef = None, focusable = [1], activeWithin = True\<rparr>"
      "\<lparr>url = Some (js ''https://a.org/p''), title = Some (js ''Page''),
         others = [(''id'', JNum 7), (''type'', JStr (js ''page''))]\<rparr>"
      "\<lparr>isEditingLink = True, internalUrlInputValue = js ''pa'',
       internalTextInputValue = [], isCreatingPage = False, isMounting = False,
       isEndingEditWithFocus = False, syncDeps = Some None, focusDeps = Some (True, False),
       onChangeCalls = [], focusCalls = []\<rparr>"]
  by (simp add: js_def)

text \<open>
  Claim C10. When the \<open>inputValue\<close> prop is a non-empty string, it is the current
  URL input instead of the internal draft: in the comparison and the committed url of
  \<open>handleSubmit\<close> and in \<open>currentInputIsEmpty\<close>, none of which then depends on
  the internal draft. The internal draft is used when the prop is empty (its default).
\<close>

theorem inputValue_prop_overrides_draft:
  "(inputValue p \<noteq> [] \<longrightarrow>
      currentUrlInputValue p s = inputValue p \<and>
      onChangeCalls (handleSubmit p d s) =
        onChangeCalls s @
          (if Some (inputValue p) \<noteq> opt_url (value_prop p) \<or>
              Some (internalTextInputValue s) \<noteq> opt_title (value_prop p)
           then [(spread (value_prop p))
                   \<lparr>url := Some (inputValue p), title := Some (internalTextInputValue s)\<rparr>]
           else []) \<and>
      (currentInputIsEmpty p s \<longleftrightarrow> length (trim (inputValue p)) = 0) \<and>
      (\<forall>x. currentUrlInputValue p (s\<lparr>internalUrlInputValue := x\<rparr>) = currentUrlInputValue p s)) \<and>
   (inputValue p = [] \<longrightarrow>
      currentUrlInputValue p s = internalUrlInputValue s \<and>
      (currentInputIsEmpty p s \<longleftrightarrow> length (trim (internalUrlInputValue s)) = 0))"
  by (simp add: handleSubmit_def stopEditing_def currentUrlInputValue_def str_or_def
      currentInputIsEmpty_def)

theorem inputValue_prop_overrides_draft_witness:
  "currentUrlInputValue
      \<lparr>value_prop = Some \<lparr>url = Some (js ''https://a.org''), title = Some (js ''A''), others = []\<rparr>,
       forceIsEditingLink = None, inputValue = js ''https://prop.org'', hasTextControl = True\<rparr>
      \<lparr>isEditingLink = True, internalUrlInputValue = js ''https://draft.org'',
       internalTextInputValue = js ''A'', isCreatingPage = False, isMounting = False,
       isEndingEditWithFocus = False, syncDeps = Some None, focusDeps = Some (True, False),
       onChangeCalls = [], focusCalls = []\<rparr> = js ''https://prop.org'' \<and>
   onChangeCalls (handleSubmit
      \<lparr>value_prop = Some \<lparr>url = Some (js ''https://a.org''), title = Some (js ''A''), others = []\<rparr>,
       forceIsEditingLink = None, inputValue = js ''https://prop.org'', hasTextControl = True\<rparr>
      \<lparr>wrapperNode = Some 0, textInputRef = Some 1, focusable = [1, 2], activeWithin = True\<rparr>
      \<lparr>isEditingLink = True, internalUrlInputValue = js ''https://draft.org'',
       internalTextInputValue = js ''A'', isCreatingPage = False, isMounting = False,
       isEndingEditWithFocus = False, syncDeps = Some None, focusDeps = Some (True, False),
       onChangeCalls = [], focusCalls = []\<rparr>) =
     [\<lparr>url = Some (js ''https://prop.org''), title = Some (js ''A''), others = []\<rparr>] \<and>
   \<not> currentInputIsEmpty
      \<lparr>value_prop = Some \<lparr>url = Some (js ''https://a.org''), title = Some (js ''A''), others = []\<rparr>,
       forceIsEditingLink = None, inputValue = js ''https://prop.org'', hasTextControl = True\<rparr>
      \<lparr>isEditingLink = True, internalUrlInputValue = [],
       internalTextInputValue = js ''A'', isCreatingPage = False, isMounting = False,
       isEndingEditWithFocus = False, syncDeps = Some None, focusDeps = Some (True, False),
       onChangeCalls = [], focusCalls = []\<rparr> \<and>
   currentUrlInputValue
      \<lparr>value_prop = Some \<lparr>url = Some (js ''https://a.org''), title = Some (js ''A''), others = []\<rparr>,
       forceIsEditingLink = None, inputValue = [], hasTextControl = True\<rparr>
      \<lparr>isEditingLink = True, internalUrlInputValue = js ''https://draft.org'',
       internalTextInputValue = js ''A'', isCreatingPage = False, isMounting = False,
       isEndingEditWithFocus = False, syncDeps = Some None, focusDeps = Some (True, False),
       onChangeCalls = [], focusCalls = []\<rparr> = js ''https://draft.org''"
  using
    inputValue_prop_overrides_draft
      [of "\<lparr>value_prop = Some \<lparr>url = Some (js ''https://a.org''), title = Some (js ''A''), others = []\<rparr>,
       forceIsEditingLink = None, inputValue = js ''https://prop.org'', hasTextControl = True\<rparr>"
      "\<lparr>isEditingLink = True, internalUrlInputValue = js ''https://draft.org'',
       internalTextInputValue = js ''A'', isCreatingPage = False, isMounting = False,
       isEndingEditWithFocus = False, syncDeps = Some None, focusDeps = Some (True, False),
       onChangeCalls = [], focusCalls = []\<rparr>"
      "\<lparr>wrapperNode = Some 0, textInputRef = Some 1, focusable = [1, 2], activeWithin = True\<rparr>"]
    inputValue_prop_overrides_draft
      [of "\<lparr>value_prop = Some \<lparr>url = Some (js ''https://a.org''), title = Some (js ''A''), others = []\<rparr>,
       forceIsEditingLink = None, inputValue = js ''https://prop.org'', hasTextControl = True\<rparr>"
      "\<lparr>isEditingLink = True, internalUrlInputValue = [],
       internalTextInputValue = js ''A'', isCreatingPage = False, isMounting = False,
       isEndingEditWithFocus = False, syncDeps = Some None, focusDeps = Some (True, False),
       onChangeCalls = [], focusCalls = []\<rparr>"
      "\<lparr>wrapperNode = Some 0, textInputRef = Some 1, focusable = [1, 2], activeWithin = True\<rparr>"]
    inputValue_prop_overrides_draft
      [of "\<lparr>value_prop = Some \<lparr>url = Some (js ''https://a.org''), title = Some (js ''A''), others = []\<rparr>,
       forceIsEditingLink = None, inputValue = [], hasTextControl = True\<rparr>"
      "\<lparr>isEditingLink = True, internalUrlInputValue = js ''https://draft.org'',
       internalTextInputValue = js ''A'', isCreatingPage = False, isMounting = False,
       isEndingEditWithFocus = False, syncDeps = Some None, focusDeps = Some (True, False),
       onChangeCalls = [], focusCalls = []\<rparr>"
      "\<lparr>wrapperNode = Some 0, textInputRef = Some 1, focusable = [1, 2], activeWithin = True\<rparr>"]
  by (simp add: js_def opt_url_def opt_title_def spread_def trim_def isWhiteSpace_def)

subsection \<open>The effects\<close>

lemma depsChanged_iff: "depsChanged previous deps \<longleftrightarrow> previous \<noteq> Some deps"
  by (cases previous) (auto simp: depsChanged_def)

lemma syncEffect_frame:
  "isMounting (syncEffect p s) = isMounting s"
  "focusCalls (syncEffect p s) = focusCalls s"
  "focusDeps (syncEffect p s) = focusDeps s"
  "isCreatingPage (syncEffect p s) = isCreatingPage s"
  by (simp_all add: syncEffect_def split: option.splits)

lemma act_frame:
  "isMounting (act p d a s) = isMounting s"
  "focusCalls (act p d a s) = focusCalls s"
  "focusDeps (act p d a s) = focusDeps s"
  "syncDeps (act p d a s) = syncDeps s"
  by (cases a; simp add: handleSubmit_def handleSelectSuggestion_def stopEditing_def
        onEditClick_def)+

text \<open>What a commit does to the focus, once the component has been mounted.\<close>

lemma runEffects_unchanged:
  assumes "\<not> isMounting s" and "focusDeps s = Some (isEditingLink s, isCreatingPage s)"
  shows "\<exists>s'. runEffects p d s = Inr s' \<and> focusCalls s' = focusCalls s \<and>
           \<not> isMounting s' \<and> focusDeps s' = Some (isEditingLink s, isCreatingPage s)"
  using assms by (simp add: runEffects_def Let_def depsChanged_iff syncEffect_frame)

lemma runEffects_changed:
  assumes "\<not> isMounting s" and "focusDeps s \<noteq> Some (isEditingLink s, isCreatingPage s)"
  shows "case nextFocusTarget d of
           None \<Rightarrow> runEffects p d s = Inl TypeError
         | Some target \<Rightarrow>
             \<exists>s'. runEffects p d s = Inr s' \<and> focusCalls s' = focusCalls s @ [target] \<and>
               \<not> isMounting s' \<and> focusDeps s' = Some (isEditingLink s, isCreatingPage s)"
  using assms
  by (simp add: runEffects_def Let_def depsChanged_iff syncEffect_frame focusEffect_def
      split: option.splits)

lemma runEffects_mounted:
  assumes "runEffects p d s = Inr s'" and "\<not> isMounting s"
  shows "\<not> isMounting s'"
proof (cases "focusDeps s = Some (isEditingLink s, isCreatingPage s)")
  case True
  with assms runEffects_unchanged [where s = s and p = p and d = d] show ?thesis by auto
next
  case False
  with assms runEffects_changed [where s = s and p = p and d = d] show ?thesis
    by (auto split: option.splits)
qed

lemma step_mounted:
  assumes "step (p0, d0, s0) e = Inr (p1, d1, s1)" and "\<not> isMounting s0"
  shows "\<not> isMounting s1"
proof -
  obtain a p' d' where e: "e = (a, p', d')" by (cases e)
  with assms(1) have "runEffects p' d' (act p0 d0 a s0) = Inr s1"
    by (simp split: sum.splits)
  moreover have "\<not> isMounting (act p0 d0 a s0)" using assms(2) by (simp add: act_frame)
  ultimately show ?thesis by (rule runEffects_mounted)
qed

lemma life_mounted:
  assumes "m \<in> set (life m0 es)" and "\<not> isMounting (snd (snd m0))"
  shows "\<not> isMounting (snd (snd m))"
  using assms
proof (induction es arbitrary: m0)
  case Nil
  then show ?case by simp
next
  case (Cons e es)
  show ?case
  proof (cases "m = m0")
    case True
    with Cons.prems show ?thesis by simp
  next
    case False
    with Cons.prems(1) obtain m1 where s: "step m0 e = Inr m1" and m: "m \<in> set (life m1 es)"
      by (cases "step m0 e") auto
    obtain p0 d0 s0 where m0: "m0 = (p0, d0, s0)" by (cases m0)
    obtain p1 d1 s1 where m1: "m1 = (p1, d1, s1)" by (cases m1)
    from s Cons.prems(2) have "\<not> isMounting s1"
      unfolding m0 m1 by (auto dest: step_mounted)
    with Cons.IH [OF m] m1 show ?thesis by simp
  qed
qed

lemma lifetime_mounted:
  assumes "(p0, d0, s0) \<in> set (lifetime p d u t c es)"
  shows "\<not> isMounting s0"
proof -
  from assms have "(p0, d0, s0) \<in> set (life (p, d, (initialState p u t c)
            \<lparr>isMounting := False,
             syncDeps := Some (forceIsEditingLink p),
             focusDeps := Some (initialIsEditingLink p, c)\<rparr>) es)"
    by (simp add: lifetime_def mount_def runEffects_initial)
  from life_mounted [OF this] show ?thesis by simp
qed

text \<open>
  Claim C3. Mounting never moves focus. For an instance reached in the life of a
  component and any next step: if the \<open>isEditingLink\<close> and \<open>isCreatingPage\<close> of
  the new render are those of the render before, \<open>focus\<close> is not called; if one of
  them changed, it is called exactly once, on the focusable element at index 1 when
  \<open>textInputRef\<close> holds an element and at index 0 otherwise, or on the wrapper itself
  when there is no focusable element at that index (a wrapper that is not attached is
  a \<open>TypeError\<close>).
\<close>

theorem focus_effect_once_per_change:
  assumes "(p0, d0, s0) \<in> set (lifetime p d u t c es)"
  shows "(\<exists>s. mount p d u t c = Inr (p, d, s) \<and> focusCalls s = []) \<and>
    (let s1 = act p0 d0 a s0;
         i = (if textInputRef d' = None then 0 else 1)
     in if focusDeps s0 = Some (isEditingLink s1, isCreatingPage s1)
        then \<exists>s'. step (p0, d0, s0) (a, p', d') = Inr (p', d', s') \<and>
               focusCalls s' = focusCalls s0 \<and>
               focusDeps s' = Some (isEditingLink s1, isCreatingPage s1)
        else if i < length (focusable d')
        then \<exists>s'. step (p0, d0, s0) (a, p', d') = Inr (p', d', s') \<and>
               focusCalls s' = focusCalls s0 @ [focusable d' ! i] \<and>
               focusDeps s' = Some (isEditingLink s1, isCreatingPage s1)
        else case wrapperNode d' of
               Some w \<Rightarrow>
                 \<exists>s'. step (p0, d0, s0) (a, p', d') = Inr (p', d', s') \<and>
                   focusCalls s' = focusCalls s0 @ [w] \<and>
                   focusDeps s' = Some (isEditingLink s1, isCreatingPage s1)
             | None \<Rightarrow> step (p0, d0, s0) (a, p', d') = Inl TypeError)"
proof
  show "\<exists>s. mount p d u t c = Inr (p, d, s) \<and> focusCalls s = []"
    unfolding mount_def runEffects_initial by (simp add: initialState_def)
next
  define s1 where "s1 = act p0 d0 a s0"
  have mounted: "\<not> isMounting s1"
    using lifetime_mounted [OF assms] by (simp add: s1_def act_frame)
  have frame: "focusDeps s1 = focusDeps s0" "focusCalls s1 = focusCalls s0"
    by (simp_all add: s1_def act_frame)
  show "let s1 = act p0 d0 a s0;
         i = (if textInputRef d' = None then 0 else 1)
     in if focusDeps s0 = Some (isEditingLink s1, isCreatingPage s1)
        then \<exists>s'. step (p0, d0, s0) (a, p', d') = Inr (p', d', s') \<and>
               focusCalls s' = focusCalls s0 \<and>
               focusDeps s' = Some (isEditingLink s1, isCreatingPage s1)
        else if i < length (focusable d')
        then \<exists>s'. step (p0, d0, s0) (a, p', d') = Inr (p', d', s') \<and>
               focusCalls s' = focusCalls s0 @ [focusable d' ! i] \<and>
               focusDeps s' = Some (isEditingLink s1, isCreatingPage s1)
        else case wrapperNode d' of
               Some w \<Rightarrow>
                 \<exists>s'. step (p0, d0, s0) (a, p', d') = Inr (p', d', s') \<and>
                   focusCalls s' = focusCalls s0 @ [w] \<and>
                   focusDeps s' = Some (isEditingLink s1, isCreatingPage s1)
             | None \<Rightarrow> step (p0, d0, s0) (a, p', d') = Inl TypeError"
  proof (cases "focusDeps s0 = Some (isEditingLink s1, isCreatingPage s1)")
    case True
    with runEffects_unchanged [where s = s1 and p = p' and d = d'] mounted frame show ?thesis
      by (auto simp: Let_def s1_def)
  next
    case False
    with runEffects_changed [where s = s1 and p = p' and d = d'] mounted frame show ?thesis
      by (auto simp: Let_def s1_def nextFocusTarget_def whichFocusTargetIndex_def
          split: option.splits if_splits)
  qed
qed

theorem focus_effect_once_per_change_witness:
  "(\<lparr>value_prop = Some \<lparr>url = Some (js ''https://a.org''), title = None, others = []\<rparr>,
      forceIsEditingLink = None, inputValue = [], hasTextControl = True\<rparr>,
    \<lparr>wrapperNode = Some 0, textInputRef = None, focusable = [3], activeWithin = False\<rparr>,
    \<lparr>isEditingLink = False, internalUrlInputValue = js ''https://a.org'',
      internalTextInputValue = [], isCreatingPage = False, isMounting = False,
      isEndingEditWithFocus = False, syncDeps = Some None, focusDeps = Some (False, False),
      onChangeCalls = [], focusCalls = []\<rparr>)
   \<in> set (lifetime
      \<lparr>value_prop = Some \<lparr>url = Some (js ''https://a.org''), title = None, others = []\<rparr>,
        forceIsEditingLink = None, inputValue = [], hasTextControl = True\<rparr>
      \<lparr>wrapperNode = Some 0, textInputRef = None, focusable = [3], activeWithin = False\<rparr>
      (js ''https://a.org'') [] False []) \<and>
   (\<exists>s'. step
      (\<lparr>value_prop = Some \<lparr>url = Some (js ''https://a.org''), title = None, others = []\<rparr>,
         forceIsEditingLink = None, inputValue = [], hasTextControl = True\<rparr>,
       \<lparr>wrapperNode = Some 0, textInputRef = None, focusable = [3], activeWithin = False\<rparr>,
       \<lparr>isEditingLink = False, internalUrlInputValue = js ''https://a.org'',
         internalTextInputValue = [], isCreatingPage = False, isMounting = False,
         isEndingEditWithFocus = False, syncDeps = Some None, focusDeps = Some (False, False),
         onChangeCalls = [], focusCalls = []\<rparr>)
      (EditClick,
       \<lparr>value_prop = Some \<lparr>url = Some (js ''https://a.org''), title = None, others = []\<rparr>,
         forceIsEditingLink = None, inputValue = [], hasTextControl = True\<rparr>,
       \<lparr>wrapperNode = Some 0, textInputRef = Some 1, focusable = [1, 2], activeWithin = False\<rparr>) =
      Inr (\<lparr>value_prop = Some \<lparr>url = Some (js ''https://a.org''), title = None, others = []\<rparr>,
         forceIsEditingLink = None, inputValue = [], hasTextControl = True\<rparr>,
       \<lparr>wrapperNode = Some 0, textInputRef = Some 1, focusable = [1, 2], activeWithin = False\<rparr>,
       s') \<and>
      focusCalls s' = [2] \<and> focusDeps s' = Some (True, False)) \<and>
   (\<exists>s'. step
      (\<lparr>value_prop = Some \<lparr>url = Some (js ''https://a.org''), title = None, others = []\<rparr>,
         forceIsEditingLink = None, inputValue = [], hasTextControl = True\<rparr>,
       \<lparr>wrapperNode = Some 0, textInputRef = None, focusable = [3], activeWithin = False\<rparr>,
       \<lparr>isEditingLink = False, internalUrlInputValue = js ''https://a.org'',
         internalTextInputValue = [], isCreatingPage = False, isMounting = False,
         isEndingEditWithFocus = False, syncDeps = Some None, focusDeps = Some (False, False),
         onChangeCalls = [], focusCalls = []\<rparr>)
      (SetIsCreatingPage True,
       \<lparr>value_prop = Some \<lparr>url = Some (js ''https://a.org''), title = None, others = []\<rparr>,
         forceIsEditingLink = None, inputValue = [], hasTextControl = True\<rparr>,
       \<lparr>wrapperNode = Some 0, textInputRef = None, focusable = [], activeWithin = False\<rparr>) =
      Inr (\<lparr>value_prop = Some \<lparr>url = Some (js ''https://a.org''), title = None, others = []\<rparr>,
         forceIsEditingLink = None, inputValue = [], hasTextControl = True\<rparr>,
       \<lparr>wrapperNode = Some 0, textInputRef = None, focusable = [], activeWithin = False\<rparr>,
       s') \<and>
      focusCalls s' = [0] \<and> focusDeps s' = Some (False, True)) \<and>
   (\<exists>s'. step
      (\<lparr>value_prop = Some \<lparr>url = Some (js ''https://a.org''), title = None, others = []\<rparr>,
         forceIsEditingLink = None, inputValue = [], hasTextControl = True\<rparr>,
       \<lparr>wrapperNode = Some 0, textInputRef = None, focusable = [3], activeWithin = False\<rparr>,
       \<lparr>isEditingLink = False, internalUrlInputValue = js ''https://a.org'',
         internalTextInputValue = [], isCreatingPage = False, isMounting = False,
         isEndingEditWithFocus = False, syncDeps = Some None, focusDeps = Some (False, False),
         onChangeCalls = [], focusCalls = []\<rparr>)
      (SetInternalUrlInputValue (js ''https://b.org''),
       \<lparr>value_prop = Some \<lparr>url = Some (js ''https://a.org''), title = None, others = []\<rparr>,
         forceIsEditingLink = None, inputValue = [], hasTextControl = True\<rparr>,
       \<lparr>wrapperNode = Some 0, textInputRef = None, focusable = [3], activeWithin = False\<rparr>) =
      Inr (\<lparr>value_prop = Some \<lparr>url = Some (js ''https://a.org''), title = None, others = []\<rparr>,
         forceIsEditingLink = None, inputValue = [], hasTextControl = True\<rparr>,
       \<lparr>wrapperNode = Some 0, textInputRef = None, focusable = [3], activeWithin = False\<rparr>,
       s') \<and>
      focusCalls s' = [] \<and> focusDeps s' = Some (False, False))"
  (is "?m \<in> set ?life \<and> ?edit \<and> ?creating \<and> ?typing")
proof -
  let ?p = "\<lparr>value_prop = Some \<lparr>url = Some (js ''https://a.org''), title = None, others = []\<rparr>,
      forceIsEditingLink = None, inputValue = [], hasTextControl = True\<rparr>"
  have reached: "?m \<in> set ?life"
    unfolding lifetime_def mount_def runEffects_initial
    by (simp add: initialState_def initialIsEditingLink_def truthy_def opt_url_def js_def)
  have "?edit"
    using focus_effect_once_per_change [OF reached, of EditClick
        "\<lparr>wrapperNode = Some 0, textInputRef = Some 1, focusable = [1, 2], activeWithin = False\<rparr>" ?p]
    by (simp add: onEditClick_def)
  moreover have "?creating"
    using focus_effect_once_per_change [OF reached, of "SetIsCreatingPage True"
        "\<lparr>wrapperNode = Some 0, textInputRef = None, focusable = [], activeWithin = False\<rparr>" ?p]
    by simp
  moreover have "?typing"
    using focus_effect_once_per_change [OF reached, of "SetInternalUrlInputValue (js ''https://b.org'')"
        "\<lparr>wrapperNode = Some 0, textInputRef = None, focusable = [3], activeWithin = False\<rparr>" ?p]
    by simp
  ultimately show ?thesis using reached by blast
qed

lemma runEffects_syncDeps:
  assumes "runEffects p d s = Inr s'"
  shows "syncDeps s' = Some (forceIsEditingLink p)"
  using assms by (auto simp: runEffects_def Let_def split: sum.splits if_splits)

lemma life_syncDeps:
  assumes "(p1, d1, s1) \<in> set (life m0 es)"
    and "syncDeps (snd (snd m0)) = Some (forceIsEditingLink (fst m0))"
  shows "syncDeps s1 = Some (forceIsEditingLink p1)"
  using assms
proof (induction es arbitrary: m0)
  case Nil
  then show ?case by auto
next
  case (Cons e es)
  show ?case
  proof (cases "(p1, d1, s1) = m0")
    case True
    with Cons.prems(2) show ?thesis by auto
  next
    case False
    with Cons.prems(1) obtain m' where s: "step m0 e = Inr m'"
      and m: "(p1, d1, s1) \<in> set (life m' es)"
      by (cases "step m0 e") auto
    obtain p0 d0 s0 where m0: "m0 = (p0, d0, s0)" by (cases m0)
    obtain a p' d' where e: "e = (a, p', d')" by (cases e)
    from s obtain s' where m': "m' = (p', d', s')"
      and r: "runEffects p' d' (act p0 d0 a s0) = Inr s'"
      unfolding m0 e by (auto split: sum.splits)
    from runEffects_syncDeps [OF r] have "syncDeps (snd (snd m')) = Some (forceIsEditingLink (fst m'))"
      by (simp add: m')
    from Cons.IH [OF m this] show ?thesis .
  qed
qed

lemma lifetime_syncDeps:
  assumes "(p0, d0, s0) \<in> set (lifetime p d u t c es)"
  shows "syncDeps s0 = Some (forceIsEditingLink p0)"
proof -
  from assms have "(p0, d0, s0) \<in> set (life (p, d, (initialState p u t c)
            \<lparr>isMounting := False,
             syncDeps := Some (forceIsEditingLink p),
             focusDeps := Some (initialIsEditingLink p, c)\<rparr>) es)"
    by (simp add: lifetime_def mount_def runEffects_initial)
  from life_syncDeps [OF this] show ?thesis by simp
qed

lemma runEffects_forced:
  assumes "forceIsEditingLink p = Some f" and "syncDeps s \<noteq> Some (Some f)"
    and "isEditingLink s \<noteq> f" and "runEffects p d s = Inr s'"
  shows "isEditingLink s' = f"
  using assms
  by (auto simp: runEffects_def Let_def depsChanged_iff syncEffect_def focusEffect_def
      split: sum.splits if_splits option.splits)

text \<open>
  Claim C6. When the \<open>forceIsEditingLink\<close> prop is defined, has changed since the
  last render, and differs from \<open>isEditingLink\<close>, the sync effect sets
  \<open>isEditingLink\<close> to the flag, and the sync effect itself calls no \<open>focus\<close>: when
  the focus dependencies of that render are unchanged, the whole commit leaves the
  focus calls as they were.
\<close>

theorem forced_editing_sync:
  assumes "(p0, d0, s0) \<in> set (lifetime p d u t c es)"
    and "forceIsEditingLink p' = Some f"
    and "forceIsEditingLink p0 \<noteq> Some f"
    and "isEditingLink (act p0 d0 a s0) \<noteq> f"
  shows "isEditingLink (syncEffect p' (act p0 d0 a s0)) = f \<and>
    focusCalls (syncEffect p' (act p0 d0 a s0)) = focusCalls s0 \<and>
    (\<forall>s'. step (p0, d0, s0) (a, p', d') = Inr (p', d', s') \<longrightarrow> isEditingLink s' = f) \<and>
    (focusDeps s0 = Some (isEditingLink (act p0 d0 a s0), isCreatingPage (act p0 d0 a s0)) \<longrightarrow>
       (\<exists>s'. step (p0, d0, s0) (a, p', d') = Inr (p', d', s') \<and> isEditingLink s' = f \<and>
          focusCalls s' = focusCalls s0))"
proof -
  define s1 where "s1 = act p0 d0 a s0"
  have sd: "syncDeps s1 \<noteq> Some (Some f)"
    using lifetime_syncDeps [OF assms(1)] assms(3) by (simp add: s1_def act_frame)
  have mounted: "\<not> isMounting s1"
    using lifetime_mounted [OF assms(1)] by (simp add: s1_def act_frame)
  have frame: "focusDeps s1 = focusDeps s0" "focusCalls s1 = focusCalls s0"
    by (simp_all add: s1_def act_frame)
  have ne: "isEditingLink s1 \<noteq> f" using assms(4) by (simp add: s1_def)
  have 1: "isEditingLink (syncEffect p' s1) = f"
    using assms(2) ne by (simp add: syncEffect_def)
  have 2: "focusCalls (syncEffect p' s1) = focusCalls s0"
    by (simp add: syncEffect_frame frame)
  have 3: "isEditingLink s' = f" if "step (p0, d0, s0) (a, p', d') = Inr (p', d', s')" for s'
  proof -
    from that have "runEffects p' d' s1 = Inr s'"
      by (simp add: s1_def split: sum.splits)
    from runEffects_forced [OF assms(2) sd ne this] show ?thesis .
  qed
  have 4: "\<exists>s'. step (p0, d0, s0) (a, p', d') = Inr (p', d', s') \<and> isEditingLink s' = f \<and>
          focusCalls s' = focusCalls s0"
    if "focusDeps s0 = Some (isEditingLink s1, isCreatingPage s1)"
  proof -
    from that frame have "focusDeps s1 = Some (isEditingLink s1, isCreatingPage s1)" by simp
    from runEffects_unchanged [OF mounted this, where p = p' and d = d'] obtain s'
      where r: "runEffects p' d' s1 = Inr s'" and fc: "focusCalls s' = focusCalls s1"
      by blast
    from r have st: "step (p0, d0, s0) (a, p', d') = Inr (p', d', s')"
      by (simp add: s1_def)
    with 3 fc frame show ?thesis by auto
  qed
  from 1 2 3 4 show ?thesis unfolding s1_def by blast
qed

theorem forced_editing_sync_witness:
  "(\<lparr>value_prop = Some \<lparr>url = Some (js ''https://a.org''), title = None, others = []\<rparr>,
      forceIsEditingLink = None, inputValue = [], hasTextControl = True\<rparr>,
    \<lparr>wrapperNode = Some 0, textInputRef = None, focusable = [3], activeWithin = False\<rparr>,
    \<lparr>isEditingLink = False, internalUrlInputValue = js ''https://a.org'',
      internalTextInputValue = [], isCreatingPage = False, isMounting = False,
      isEndingEditWithFocus = False, syncDeps = Some None, focusDeps = Some (False, False),
      onChangeCalls = [], focusCalls = []\<rparr>)
   \<in> set (lifetime
      \<lparr>value_prop = Some \<lparr>url = Some (js ''https://a.org''), title = None, others = []\<rparr>,
        forceIsEditingLink = None, inputValue = [], hasTextControl = True\<rparr>
      \<lparr>wrapperNode = Some 0, textInputRef = None, focusable = [3], activeWithin = False\<rparr>
      (js ''https://a.org'') [] False []) \<and>
   (\<exists>s'. step
      (\<lparr>value_prop = Some \<lparr>url = Some (js ''https://a.org''), title = None, others = []\<rparr>,
         forceIsEditingLink = None, inputValue = [], hasTextControl = True\<rparr>,
       \<lparr>wrapperNode = Some 0, textInputRef = None, focusable = [3], activeWithin = False\<rparr>,
       \<lparr>isEditingLink = False, internalUrlInputValue = js ''https://a.org'',
         internalTextInputValue = [], isCreatingPage = False, isMounting = False,
         isEndingEditWithFocus = False, syncDeps = Some None, focusDeps = Some (False, False),
         onChangeCalls = [], focusCalls = []\<rparr>)
      (Rerender,
       \<lparr>value_prop = Some \<lparr>url = Some (js ''https://a.org''), title = None, others = []\<rparr>,
         forceIsEditingLink = Some True, inputValue = [], hasTextControl = True\<rparr>,
       \<lparr>wrapperNode = Some 0, textInputRef = None, focusable = [3], activeWithin = False\<rparr>) =
      Inr (\<lparr>value_prop = Some \<lparr>url = Some (js ''https://a.org''), title = None, others = []\<rparr>,
         forceIsEditingLink = Some True, inputValue = [], hasTextControl = True\<rparr>,
       \<lparr>wrapperNode = Some 0, textInputRef = None, focusable = [3], activeWithin = False\<rparr>,
       s') \<and>
      isEditingLink s' \<and> focusCalls s' = [])"
  (is "?m \<in> set ?life \<and> ?sync")
proof -
  have reached: "?m \<in> set ?life"
    unfolding lifetime_def mount_def runEffects_initial
    by (simp add: initialState_def initialIsEditingLink_def truthy_def opt_url_def js_def)
  have "?sync"
    using forced_editing_sync [OF reached, of
        "\<lparr>value_prop = Some \<lparr>url = Some (js ''https://a.org''), title = None, others = []\<rparr>,
          forceIsEditingLink = Some True, inputValue = [], hasTextControl = True\<rparr>"
        True Rerender
        "\<lparr>wrapperNode = Some 0, textInputRef = None, focusable = [3], activeWithin = False\<rparr>"]
    by simp
  with reached show ?thesis by blast
qed

text \<open>The render that follows the state update of the sync is the one that moves focus.\<close>

lemma focus_follows_forced_sync:
  assumes "(p0, d0, s0) \<in> set (lifetime p d u t c es)"
    and "forceIsEditingLink p' = Some f"
    and "forceIsEditingLink p0 \<noteq> Some f"
    and "isEditingLink (act p0 d0 a s0) \<noteq> f"
    and "focusDeps s0 = Some (isEditingLink (act p0 d0 a s0), isCreatingPage (act p0 d0 a s0))"
    and "step (p0, d0, s0) (a, p', d') = Inr (p', d', s')"
    and "nextFocusTarget d'' = Some target"
  shows "\<exists>s''. step (p', d', s') (Rerender, p', d'') = Inr (p', d'', s'') \<and>
           focusCalls s'' = focusCalls s0 @ [target]"
proof -
  define s1 where "s1 = act p0 d0 a s0"
  have mounted: "\<not> isMounting s1"
    using lifetime_mounted [OF assms(1)] by (simp add: s1_def act_frame)
  have sd: "syncDeps s1 \<noteq> Some (Some f)"
    using lifetime_syncDeps [OF assms(1)] assms(3) by (simp add: s1_def act_frame)
  have frame: "focusDeps s1 = Some (isEditingLink s1, isCreatingPage s1)"
    "focusCalls s1 = focusCalls s0"
    using assms(5) by (simp_all add: s1_def act_frame)
  from assms(6) have r: "runEffects p' d' s1 = Inr s'"
    by (simp add: s1_def split: sum.splits)
  from runEffects_unchanged [OF mounted frame(1), where p = p' and d = d'] r
  have s': "focusCalls s' = focusCalls s0" "\<not> isMounting s'"
    "focusDeps s' = Some (isEditingLink s1, isCreatingPage s1)"
    using frame(2) by auto
  have "isEditingLink s' = f"
    using runEffects_forced [OF assms(2) sd _ r] assms(4) by (simp add: s1_def)
  with assms(4) s'(3) have "focusDeps s' \<noteq> Some (isEditingLink s', isCreatingPage s')"
    by (auto simp: s1_def)
  from runEffects_changed [OF s'(2) this, where d = d'' and p = p'] assms(7) s'(1) show ?thesis
    by auto
qed

section \<open>Properties of the query-total renderer\<close>

lemma sprintf_wrapper:
  "sprintf ''<div %1$s>%2$s</div>'' [AStr w, AStr out] = Inr (''<div '' @ w @ ''>'' @ out @ ''</div>'')"
  by (simp add: sprintf_def then_append_def argument_def is_digit_def)

lemma sprintf_paragraph:
  "sprintf ''<p>%s</p>'' [AStr txt] = Inr (''<p>'' @ txt @ ''</p>'')"
  by (simp add: sprintf_def then_append_def argument_def)

lemma sprintf_total:
  "sprintf ''<p><strong>%d</strong> %s</p>'' [AInt m, AStr txt] =
     Inr (''<p><strong>'' @ strval m @ ''</strong> '' @ txt @ ''</p>'')"
  by (simp add: sprintf_def then_append_def argument_def)

lemma range_text_eq:
  "range_text start end_row m =
     Inr (if start = end_row
          then ''Displaying <strong>'' @ strval start @ ''</strong> of <strong>'' @ strval m @
               ''</strong>''
          else ''Displaying <strong>'' @ strval start @ ''</strong> '' @ en_dash @
               '' <strong>'' @ strval end_row @ ''</strong> of <strong>'' @ strval m @
               ''</strong>'')"
  by (simp add: range_text_def translate_def strong_def en_dash_def sprintf_def
      then_append_def argument_def is_digit_def)

text \<open>
  Claim C7, as amended. For \<open>displayType = "range-display"\<close> and integers whose
  arithmetic stays within PHP's integers, the renderer computes
  \<open>start = (current_page - 1) * posts_per_page + 1\<close> and
  \<open>end = min (start + posts_per_page - 1, found_posts)\<close> and fills the template
  \<open>Displaying {start} of {total}\<close> when start equals end and
  \<open>Displaying {start} - {end} of {total}\<close> (with an en dash) otherwise, each number
  wrapped in \<open><strong>\<close>, the text wrapped in \<open><p>\<close> and in the block's
  \<open><div>\<close>. The plain text \<open>Displaying 1 - 10 of 25\<close> is not what the renderer
  returns for page 1, 10 per page and 25 posts.
\<close>

theorem range_display_output:
  assumes "list_all fits
     [cp, per_page, found, cp - 1, (cp - 1) * per_page, (cp - 1) * per_page + 1,
      (cp - 1) * per_page + 1 + per_page, (cp - 1) * per_page + 1 + per_page - 1]"
  shows "render_block_core_query_total
      \<lparr>wrapper_attributes = w, current_page = cp, found_posts = found,
       posts_per_page = per_page, displayType = ''range-display''\<rparr> =
    (let start = (cp - 1) * per_page + 1;
         end_row = min (start + per_page - 1) found
     in Inr (''<div '' @ w @ ''><p>'' @
          (if start = end_row
           then ''Displaying <strong>'' @ strval start @ ''</strong> of <strong>'' @
                strval found @ ''</strong>''
           else ''Displaying <strong>'' @ strval start @ ''</strong> '' @ en_dash @
                '' <strong>'' @ strval end_row @ ''</strong> of <strong>'' @
                strval found @ ''</strong>'') @
          ''</p></div>''))"
  using assms
  by (simp add: render_block_core_query_total_def php_int_def Let_def range_text_eq
      sprintf_paragraph sprintf_wrapper)

theorem range_display_output_witness:
  "render_block_core_query_total
      \<lparr>wrapper_attributes = ''class=summary'', current_page = 1, found_posts = 25,
       posts_per_page = 10, displayType = ''range-display''\<rparr> =
     Inr (''<div class=summary><p>Displaying <strong>1</strong> '' @ en_dash @
          '' <strong>10</strong> of <strong>25</strong></p></div>'') \<and>
   render_block_core_query_total
      \<lparr>wrapper_attributes = [], current_page = 3, found_posts = 25,
       posts_per_page = 10, displayType = ''range-display''\<rparr> =
     Inr (''<div ><p>Displaying <strong>21</strong> '' @ en_dash @
          '' <strong>25</strong> of <strong>25</strong></p></div>'') \<and>
   render_block_core_query_total
      \<lparr>wrapper_attributes = [], current_page = 1, found_posts = 1,
       posts_per_page = 1, displayType = ''range-display''\<rparr> =
     Inr ''<div ><p>Displaying <strong>1</strong> of <strong>1</strong></p></div>''"
  using range_display_output [of 1 10 25 "''class=summary''"]
    range_display_output [of 3 10 25 "[]"]
    range_display_output [of 1 1 1 "[]"]
  by (simp add: fits_def strval_def nat_digits.simps)

theorem range_display_plain_text_counterexample:
  "render_block_core_query_total
      \<lparr>wrapper_attributes = [], current_page = 1, found_posts = 25,
       posts_per_page = 10, displayType = ''range-display''\<rparr> \<noteq>
     Inr (''Displaying 1 '' @ en_dash @ '' 10 of 25'') \<and>
   range_text 1 10 25 \<noteq> Inr (''Displaying 1 '' @ en_dash @ '' 10 of 25'')"
  by (simp add: render_block_core_query_total_def php_int_def fits_def Let_def range_text_eq
      sprintf_paragraph sprintf_wrapper strval_def nat_digits.simps en_dash_def)

text \<open>
  Claim C8, as amended. For every \<open>displayType\<close> other than \<open>"range-display"\<close>
  and every count, the renderer fills \<open>{total} result(s) found\<close>, singular exactly
  for 1, with the count wrapped in \<open><strong>\<close>, the text in \<open><p>\<close> and in the
  block's \<open><div>\<close>. The plain texts \<open>1 result found\<close> and
  \<open>0 results found\<close> are not what the renderer returns.
\<close>

theorem total_results_output:
  assumes "fits found" and "display \<noteq> ''range-display''"
  shows "render_block_core_query_total
      \<lparr>wrapper_attributes = w, current_page = cp, found_posts = found,
       posts_per_page = per_page, displayType = display\<rparr> =
    Inr (''<div '' @ w @ ''><p><strong>'' @ strval found @ ''</strong> '' @
         (if found = 1 then ''result found'' else ''results found'') @ ''</p></div>'')"
  using assms
  by (simp add: render_block_core_query_total_def php_int_def Let_def sprintf_total
      sprintf_wrapper translate_plural_def)

theorem total_results_output_witness:
  "render_block_core_query_total
      \<lparr>wrapper_attributes = [], current_page = 1, found_posts = 1,
       posts_per_page = 10, displayType = ''total-results''\<rparr> =
     Inr ''<div ><p><strong>1</strong> result found</p></div>'' \<and>
   render_block_core_query_total
      \<lparr>wrapper_attributes = [], current_page = 1, found_posts = 0,
       posts_per_page = 10, displayType = ''total-results''\<rparr> =
     Inr ''<div ><p><strong>0</strong> results found</p></div>'' \<and>
   render_block_core_query_total
      \<lparr>wrapper_attributes = [], current_page = 1, found_posts = 25,
       posts_per_page = 10, displayType = ''something-else''\<rparr> =
     Inr ''<div ><p><strong>25</strong> results found</p></div>''"
  using total_results_output [of 1 "''total-results''" "[]" 1 10]
    total_results_output [of 0 "''total-results''" "[]" 1 10]
    total_results_output [of 25 "''something-else''" "[]" 1 10]
  by (simp add: fits_def strval_def nat_digits.simps)

theorem total_results_plain_text_counterexample:
  "render_block_core_query_total
      \<lparr>wrapper_attributes = [], current_page = 1, found_posts = 1,
       posts_per_page = 10, displayType = ''total-results''\<rparr> \<noteq> Inr ''1 result found'' \<and>
   render_block_core_query_total
      \<lparr>wrapper_attributes = [], current_page = 1, found_posts = 0,
       posts_per_page = 10, displayType = ''total-results''\<rparr> \<noteq> Inr ''0 results found''"
  by (simp add: render_block_core_query_total_def php_int_def fits_def Let_def sprintf_total
      sprintf_wrapper translate_plural_def strval_def nat_digits.simps)

end
